theory Spec2Isabelle
  imports Main
begin

section \<open>Runtime values\<close>

text \<open>
  Objects of the JavaScript runtime are told apart by identity. An object created by
  \<^verbatim>\<open>new\<close> (or by a factory call such as \<^verbatim>\<open>drizzle(...)\<close>) gets the next free
  identity of an allocation counter, which is passed through every constructor.
\<close>

type_synonym obj_id = nat

text \<open>\<^verbatim>\<open>process.env\<close>: a variable is either unset or a string.\<close>

type_synonym env = "string \<rightharpoonup> string"

text \<open>
  Thrown values. \<^verbatim>\<open>UnauthorizedError\<close> is the subclass of \<^verbatim>\<open>Error\<close> declared in
  \<^verbatim>\<open>middleware/auth.ts\<close>; \<open>Thrown\<close> is a thrown value that is not an instance of
  \<^verbatim>\<open>Error\<close>.
\<close>

datatype error = Error string | UnauthorizedError string | Thrown string

fun instanceof_Error :: "error \<Rightarrow> bool" where
  "instanceof_Error (Error _) = True"
| "instanceof_Error (UnauthorizedError _) = True"
| "instanceof_Error (Thrown _) = False"


fun message :: "error \<Rightarrow> string" where
  "message (Error m) = m"
| "message (UnauthorizedError m) = m"
| "message (Thrown m) = m"

text \<open>\<^verbatim>\<open>a || b\<close> on an environment string: the empty string and \<^verbatim>\<open>undefined\<close> are falsy.\<close>

definition or_string :: "string option \<Rightarrow> string \<Rightarrow> string" where
  "or_string a b = (case a of None \<Rightarrow> b | Some s \<Rightarrow> if s = [] then b else s)"

text \<open>
  \<^verbatim>\<open>Number(x) || d\<close>: the conversion \<^verbatim>\<open>Number\<close> is a built-in of the runtime and is a
  parameter \<open>Number\<close> of the model (\<open>None\<close> is \<^verbatim>\<open>NaN\<close>); \<^verbatim>\<open>NaN\<close> and \<^verbatim>\<open>0\<close> are
  falsy.
\<close>

definition or_number :: "int option \<Rightarrow> int \<Rightarrow> int" where
  "or_number a b = (case a of None \<Rightarrow> b | Some n \<Rightarrow> if n = 0 then b else n)"

text \<open>\<^verbatim>\<open>a ?? b\<close>: only \<^verbatim>\<open>undefined\<close> and \<^verbatim>\<open>null\<close> fall through to \<open>b\<close>.\<close>

definition nullish :: "'a option \<Rightarrow> 'a \<Rightarrow> 'a" where
  "nullish a b = (case a of None \<Rightarrow> b | Some v \<Rightarrow> v)"


section \<open>\<^verbatim>\<open>config/database.ts\<close>: pool construction\<close>

record DatabaseConfig =
  host :: string
  port :: int
  database :: string
  user :: string
  password :: string
  max_conn :: "int option"
  idleTimeoutMillis :: "int option"
  connectionTimeoutMillis :: "int option"

text \<open>
  The \<^verbatim>\<open>ssl\<close> option of the driver's \<^verbatim>\<open>PoolConfig\<close>: \<^verbatim>\<open>false\<close>, or an options
  object with its \<^verbatim>\<open>rejectUnauthorized\<close> flag.
\<close>

datatype ssl_option = SslFalse | SslOptions (rejectUnauthorized: bool)

record PoolConfig =
  pc_host :: string
  pc_port :: int
  pc_database :: string
  pc_user :: string
  pc_password :: string
  pc_max :: int
  pc_idleTimeoutMillis :: int
  pc_connectionTimeoutMillis :: int
  pc_ssl :: ssl_option

record Pool =
  pool_id :: obj_id
  pool_options :: PoolConfig

text \<open>\<^verbatim>\<open>new Pool(poolConfig)\<close>: a fresh object holding its options.\<close>

definition new_Pool :: "PoolConfig \<Rightarrow> obj_id \<Rightarrow> Pool \<times> obj_id" where
  "new_Pool poolConfig h = (\<lparr>pool_id = h, pool_options = poolConfig\<rparr>, Suc h)"

definition createPool :: "env \<Rightarrow> DatabaseConfig \<Rightarrow> obj_id \<Rightarrow> Pool \<times> obj_id" where
  "createPool process_env config h =
     (let poolConfig =
        \<lparr>pc_host = host config,
         pc_port = port config,
         pc_database = database config,
         pc_user = user config,
         pc_password = password config,
         pc_max = nullish (max_conn config) 20,
         pc_idleTimeoutMillis = nullish (idleTimeoutMillis config) 30000,
         pc_connectionTimeoutMillis = nullish (connectionTimeoutMillis config) 5000,
         pc_ssl = (if process_env ''DB_SSL_ENABLED'' = Some ''true''
                   then SslOptions False else SslFalse)\<rparr>
      in new_Pool poolConfig h)"

definition primaryConfig :: "(string option \<Rightarrow> int option) \<Rightarrow> env \<Rightarrow> DatabaseConfig" where
  "primaryConfig Number process_env =
     \<lparr>host = or_string (process_env ''DB_PRIMARY_HOST'') ''10.100.0.20'',
      port = or_number (Number (process_env ''DB_PRIMARY_PORT'')) 5000,
      database = or_string (process_env ''DB_NAME'') ''demo_db'',
      user = or_string (process_env ''DB_USER'') ''postgres'',
      password = or_string (process_env ''DB_PASSWORD'') '''',
      max_conn = None,
      idleTimeoutMillis = None,
      connectionTimeoutMillis = None\<rparr>"

definition replicaConfig :: "(string option \<Rightarrow> int option) \<Rightarrow> env \<Rightarrow> DatabaseConfig" where
  "replicaConfig Number process_env =
     \<lparr>host = or_string (process_env ''DB_REPLICA_HOST'') ''10.100.0.20'',
      port = or_number (Number (process_env ''DB_REPLICA_PORT'')) 5001,
      database = or_string (process_env ''DB_NAME'') ''demo_db'',
      user = or_string (process_env ''DB_USER'') ''postgres'',
      password = or_string (process_env ''DB_PASSWORD'') '''',
      max_conn = None,
      idleTimeoutMillis = None,
      connectionTimeoutMillis = None\<rparr>"

text \<open>A Drizzle instance: an object of its own that sends its statements to one pool.\<close>

record Db =
  db_id :: obj_id
  db_client :: Pool

definition drizzle :: "Pool \<Rightarrow> obj_id \<Rightarrow> Db \<times> obj_id" where
  "drizzle client h = (\<lparr>db_id = h, db_client = client\<rparr>, Suc h)"

text \<open>
  The exported constants of the module, in the order the module body creates them. They
  are \<^verbatim>\<open>const\<close>: no later code rebinds them.
\<close>

record database_module =
  primaryPool :: Pool
  replicaPool :: Pool
  dbPrimary :: Db
  dbReplica :: Db

definition init_database_module ::
  "(string option \<Rightarrow> int option) \<Rightarrow> env \<Rightarrow> obj_id \<Rightarrow> database_module \<times> obj_id" where
  "init_database_module Number process_env h0 =
     (let (pp, h1) = createPool process_env (primaryConfig Number process_env) h0;
          (rp, h2) = createPool process_env (replicaConfig Number process_env) h1;
          (dp, h3) = drizzle pp h2;
          (dr, h4) = drizzle rp h3
      in (\<lparr>primaryPool = pp, replicaPool = rp, dbPrimary = dp, dbReplica = dr\<rparr>, h4))"

definition getDatabase :: "database_module \<Rightarrow> bool \<Rightarrow> Db" where
  "getDatabase m isWrite = (if isWrite then dbPrimary m else dbReplica m)"


section \<open>The outside world\<close>

text \<open>
  What the database servers answer is not decided by this code. A \<open>backend\<close> gives, for
  each call the code makes on a pool, either the rows that come back or the error with
  which the returned promise rejects. Every theorem below holds for every backend.
\<close>

type_synonym date = nat

record post =
  post_id :: string
  title :: string
  content :: string
  published :: bool
  authorId :: string
  createdAt :: date
  updatedAt :: date

text \<open>The object passed to \<^verbatim>\<open>.set(...)\<close> by the update: a key is present or left out.\<close>

record post_set =
  set_title :: "string option"
  set_content :: "string option"
  set_published :: "bool option"
  set_updatedAt :: date

datatype statement =
    RawSql string
  | SelectAuthorId string
  | UpdatePost string post_set
  | DeletePost string
  | AdapterStatement string

record backend =
  raw_query :: "Pool \<Rightarrow> string \<Rightarrow> error + unit"
  select_authorId :: "Pool \<Rightarrow> string \<Rightarrow> error + string list"
  update_returning :: "Pool \<Rightarrow> string \<Rightarrow> post_set \<Rightarrow> error + post list"
  delete_returning :: "Pool \<Rightarrow> string \<Rightarrow> error + string list"
  end_pool :: "Pool \<Rightarrow> error + unit"

text \<open>
  The observable effects of the code: the console, the statements handed to a pool (with
  the pool that received each), and the pools on which \<^verbatim>\<open>end()\<close> has been called.
\<close>

datatype console_line = Log string | LogError string error

record world =
  console :: "console_line list"
  sent :: "(Pool \<times> statement) list"
  end_calls :: "Pool list"

definition console_log :: "string \<Rightarrow> world \<Rightarrow> world" where
  "console_log s w = w\<lparr>console := console w @ [Log s]\<rparr>"

definition console_error :: "string \<Rightarrow> error \<Rightarrow> world \<Rightarrow> world" where
  "console_error s e w = w\<lparr>console := console w @ [LogError s e]\<rparr>"

definition send :: "Pool \<Rightarrow> statement \<Rightarrow> world \<Rightarrow> world" where
  "send p s w = w\<lparr>sent := sent w @ [(p, s)]\<rparr>"


section \<open>\<^verbatim>\<open>config/database.ts\<close>: health check and shutdown\<close>

record health =
  primary :: bool
  replica :: bool

definition checkDatabaseHealth ::
  "backend \<Rightarrow> database_module \<Rightarrow> world \<Rightarrow> (error + health) \<times> world" where
  "checkDatabaseHealth be m w0 =
     (let results = \<lparr>primary = False, replica = False\<rparr>;
          w1 = send (primaryPool m) (RawSql ''SELECT 1'') w0;
          (results1, w2) =
            (case raw_query be (primaryPool m) ''SELECT 1'' of
               Inr _ \<Rightarrow> (results\<lparr>primary := True\<rparr>, w1)
             | Inl e \<Rightarrow> (results, console_error ''Primary database health check failed:'' e w1));
          w3 = send (replicaPool m) (RawSql ''SELECT 1'') w2;
          (results2, w4) =
            (case raw_query be (replicaPool m) ''SELECT 1'' of
               Inr _ \<Rightarrow> (results1\<lparr>replica := True\<rparr>, w3)
             | Inl e \<Rightarrow> (results1, console_error ''Replica database health check failed:'' e w3))
      in (Inr results2, w4))"

text \<open>
  \<^verbatim>\<open>Promise.all\<close> of two promises: fulfilled when both are, rejected with the reason of
  the first input that rejects. When both reject, which one is first depends on the order
  in which the two settle, a parameter of the model.
\<close>

datatype settle_order = PrimaryFirst | ReplicaFirst

fun Promise_all :: "settle_order \<Rightarrow> error + unit \<Rightarrow> error + unit \<Rightarrow> error + unit" where
  "Promise_all ord (Inr _) (Inr _) = Inr ()"
| "Promise_all ord (Inl e1) (Inr _) = Inl e1"
| "Promise_all ord (Inr _) (Inl e2) = Inl e2"
| "Promise_all PrimaryFirst (Inl e1) (Inl e2) = Inl e1"
| "Promise_all ReplicaFirst (Inl e1) (Inl e2) = Inl e2"

definition closeDatabaseConnections ::
  "backend \<Rightarrow> settle_order \<Rightarrow> database_module \<Rightarrow> world \<Rightarrow> (error + unit) \<times> world" where
  "closeDatabaseConnections be ord m w0 =
     (let w1 = console_log ''Closing database connections...'' w0;
          w2 = w1\<lparr>end_calls := end_calls w1 @ [primaryPool m, replicaPool m]\<rparr>
      in case Promise_all ord (end_pool be (primaryPool m)) (end_pool be (replicaPool m)) of
           Inr _ \<Rightarrow> (Inr (), console_log ''Database connections closed successfully'' w2)
         | Inl e \<Rightarrow> (Inl e, console_error ''Error closing database connections:'' e w2))"

text \<open>The errors a caller or an operator gets to see: the one thrown and those logged.\<close>

fun logged_errors :: "console_line list \<Rightarrow> error list" where
  "logged_errors [] = []"
| "logged_errors (Log _ # ls) = logged_errors ls"
| "logged_errors (LogError _ e # ls) = e # logged_errors ls"

definition reported_errors :: "(error + unit) \<times> world \<Rightarrow> error list" where
  "reported_errors r =
     (case fst r of Inl e \<Rightarrow> [e] | Inr _ \<Rightarrow> []) @ logged_errors (console (snd r))"


section \<open>\<^verbatim>\<open>index.ts\<close>: the health endpoint\<close>

record health_response =
  h_status :: nat
  h_success :: bool
  h_state :: string
  h_timestamp :: string
  h_database :: "(string \<times> string) option"
  h_error :: "string option"

definition health_handler ::
  "backend \<Rightarrow> database_module \<Rightarrow> string \<Rightarrow> world \<Rightarrow> health_response \<times> world" where
  "health_handler be m timestamp w0 =
     (case checkDatabaseHealth be m w0 of
        (Inr dbHealth, w1) \<Rightarrow>
          (let isHealthy = (primary dbHealth \<and> replica dbHealth)
           in (\<lparr>h_status = (if isHealthy then 200 else 503),
                h_success = isHealthy,
                h_state = (if isHealthy then ''healthy'' else ''unhealthy''),
                h_timestamp = timestamp,
                h_database = Some (if primary dbHealth then ''connected'' else ''disconnected'',
                                   if replica dbHealth then ''connected'' else ''disconnected''),
                h_error = None\<rparr>, w1))
      | (Inl e, w1) \<Rightarrow>
          (\<lparr>h_status = 503,
            h_success = False,
            h_state = ''unhealthy'',
            h_timestamp = timestamp,
            h_database = None,
            h_error = Some (if instanceof_Error e then message e else ''Unknown error'')\<rparr>, w1))"


section \<open>\<^verbatim>\<open>lib/auth.ts\<close>: session verification\<close>

text \<open>
  The authentication library is configured with \<^verbatim>\<open>drizzleAdapter(dbPrimary, ...)\<close>: the
  instance through which it reaches the database.
\<close>

definition auth_database :: "database_module \<Rightarrow> Db" where
  "auth_database m = dbPrimary m"

record User =
  user_id :: string

record session =
  session_user :: "User option"

text \<open>
  The library call \<^verbatim>\<open>auth.api.getSession\<close> is external: for the headers it is given it
  resolves to a session or to \<^verbatim>\<open>null\<close>, or it rejects; and it issues some statements
  (none when its cookie cache answers), which go through the adapter above.
\<close>

record auth_api =
  getSession :: "(string \<rightharpoonup> string) \<Rightarrow> error + session option"
  adapter_statements :: "(string \<rightharpoonup> string) \<Rightarrow> string list"

fun send_all :: "Pool \<Rightarrow> statement list \<Rightarrow> world \<Rightarrow> world" where
  "send_all p [] w = w"
| "send_all p (s # ss) w = send_all p ss (send p s w)"

definition verifySession ::
  "auth_api \<Rightarrow> database_module \<Rightarrow> (string \<rightharpoonup> string) \<Rightarrow> world
     \<Rightarrow> (error + session option) \<times> world" where
  "verifySession api m headers w0 =
     (let w1 = send_all (db_client (auth_database m))
                 (map AdapterStatement (adapter_statements api headers)) w0
      in case getSession api headers of
           Inr None \<Rightarrow> (Inr None, w1)
         | Inr (Some s) \<Rightarrow> (Inr (Some s), w1)
         | Inl e \<Rightarrow> (Inr None, console_error ''Session verification error:'' e w1))"

definition getUserFromSession ::
  "auth_api \<Rightarrow> database_module \<Rightarrow> (string \<rightharpoonup> string) \<Rightarrow> world
     \<Rightarrow> (error + User option) \<times> world" where
  "getUserFromSession api m headers w0 =
     (case verifySession api m headers w0 of
        (Inl e, w1) \<Rightarrow> (Inl e, w1)
      | (Inr None, w1) \<Rightarrow> (Inr None, w1)
      | (Inr (Some s), w1) \<Rightarrow> (Inr (session_user s), w1))"


section \<open>\<^verbatim>\<open>middleware/auth.ts\<close>\<close>

text \<open>Truthiness of a header value: \<^verbatim>\<open>null\<close> and the empty string are falsy.\<close>

definition truthy_string :: "string option \<Rightarrow> bool" where
  "truthy_string a = (case a of None \<Rightarrow> False | Some s \<Rightarrow> s \<noteq> [])"

definition authMiddleware ::
  "auth_api \<Rightarrow> database_module \<Rightarrow> (string \<rightharpoonup> string) \<Rightarrow> world \<Rightarrow> (error + User) \<times> world" where
  "authMiddleware api m request_headers w0 =
     (let headers = Map.empty;
          authHeader = request_headers ''authorization'';
          cookieHeader = request_headers ''cookie'';
          headers1 = (if truthy_string authHeader
                      then headers(''authorization'' := authHeader) else headers);
          headers2 = (if truthy_string cookieHeader
                      then headers1(''cookie'' := cookieHeader) else headers1)
      in case getUserFromSession api m headers2 w0 of
           (Inl e, w1) \<Rightarrow> (Inl e, w1)
         | (Inr None, w1) \<Rightarrow> (Inl (UnauthorizedError ''Authentication required''), w1)
         | (Inr (Some u), w1) \<Rightarrow> (Inr u, w1))"


section \<open>\<^verbatim>\<open>routes/posts.ts\<close>\<close>

record response =
  r_status :: nat
  r_success :: bool
  r_message :: string
  r_data :: "post option"
  r_error :: "string option"

record patch_body =
  body_title :: "string option"
  body_content :: "string option"
  body_published :: "bool option"

definition patch_catch :: "error \<Rightarrow> world \<Rightarrow> response \<times> world" where
  "patch_catch e w =
     (\<lparr>r_status = 400, r_success = False,
       r_message = (if instanceof_Error e then message e else ''Failed to update post''),
       r_data = None, r_error = None\<rparr>,
      console_error ''Error updating post:'' e w)"

definition patch_post ::
  "backend \<Rightarrow> database_module \<Rightarrow> date \<Rightarrow> string \<Rightarrow> patch_body \<Rightarrow> User \<Rightarrow> world
     \<Rightarrow> response \<times> world" where
  "patch_post be m now params_id body usr w0 =
     (let w1 = send (db_client (dbPrimary m)) (SelectAuthorId params_id) w0
      in case select_authorId be (db_client (dbPrimary m)) params_id of
           Inl e \<Rightarrow> patch_catch e w1
         | Inr [] \<Rightarrow>
             (\<lparr>r_status = 404, r_success = False, r_message = ''Post not found'',
               r_data = None, r_error = None\<rparr>, w1)
         | Inr (existingPost # _) \<Rightarrow>
             if existingPost \<noteq> user_id usr
             then (\<lparr>r_status = 403, r_success = False,
                    r_message = ''You can only update your own posts'',
                    r_data = None, r_error = None\<rparr>, w1)
             else
               (let vals =
                      \<lparr>set_title = (if truthy_string (body_title body)
                                    then body_title body else None),
                       set_content = (if truthy_string (body_content body)
                                      then body_content body else None),
                       set_published = body_published body,
                       set_updatedAt = now\<rparr>;
                    w2 = send (db_client (dbPrimary m)) (UpdatePost params_id vals) w1
                in case update_returning be (db_client (dbPrimary m)) params_id vals of
                     Inl e \<Rightarrow> patch_catch e w2
                   | Inr rows \<Rightarrow>
                       (\<lparr>r_status = 200, r_success = True,
                         r_message = ''Post updated successfully'',
                         r_data = (case rows of [] \<Rightarrow> None | updatedPost # _ \<Rightarrow> Some updatedPost),
                         r_error = None\<rparr>, w2)))"

definition delete_catch :: "error \<Rightarrow> world \<Rightarrow> response \<times> world" where
  "delete_catch e w =
     (\<lparr>r_status = 400, r_success = False,
       r_message = (if instanceof_Error e then message e else ''Failed to delete post''),
       r_data = None, r_error = None\<rparr>,
      console_error ''Error deleting post:'' e w)"

definition delete_post ::
  "backend \<Rightarrow> database_module \<Rightarrow> string \<Rightarrow> User \<Rightarrow> world \<Rightarrow> response \<times> world" where
  "delete_post be m params_id usr w0 =
     (let w1 = send (db_client (dbPrimary m)) (SelectAuthorId params_id) w0
      in case select_authorId be (db_client (dbPrimary m)) params_id of
           Inl e \<Rightarrow> delete_catch e w1
         | Inr [] \<Rightarrow>
             (\<lparr>r_status = 404, r_success = False, r_message = ''Post not found'',
               r_data = None, r_error = None\<rparr>, w1)
         | Inr (existingPost # _) \<Rightarrow>
             if existingPost \<noteq> user_id usr
             then (\<lparr>r_status = 403, r_success = False,
                    r_message = ''You can only delete your own posts'',
                    r_data = None, r_error = None\<rparr>, w1)
             else
               (let w2 = send (db_client (dbPrimary m)) (DeletePost params_id) w1
                in case delete_returning be (db_client (dbPrimary m)) params_id of
                     Inl e \<Rightarrow> delete_catch e w2
                   | Inr _ \<Rightarrow>
                       (\<lparr>r_status = 200, r_success = True,
                         r_message = ''Post deleted successfully'',
                         r_data = None, r_error = None\<rparr>, w2)))"


text \<open>
  What a client gets from a route: the answer of the handler, or, when an error is thrown
  that no error handler attached to the route takes, the framework's own answer, which has
  status 500 and the error's message as plain text.
\<close>

datatype route_response = Answer response | Unhandled error


text \<open>
  A request to a post route: \<^verbatim>\<open>.derive(authMiddleware)\<close> runs first and hands the user to
  the handler. \<^verbatim>\<open>postRoutes\<close> chains its \<^verbatim>\<open>.onError\<close> after \<^verbatim>\<open>.derive\<close> and after all five
  routes, and the framework attaches a hook to the routes registered after it only: the
  routes have no error handler, nor does the handler of \<^verbatim>\<open>index.ts\<close> reach them, chained
  as it is after \<^verbatim>\<open>.use(postRoutes)\<close>. An error thrown by \<open>authMiddleware\<close> is therefore
  unhandled. The schema check of \<^verbatim>\<open>params\<close> and \<^verbatim>\<open>body\<close> that precedes the handler is not
  modelled: a handler is run on every \<^verbatim>\<open>params.id\<close> and body, also on those the check
  would turn away.
\<close>

definition post_route ::
  "auth_api \<Rightarrow> database_module \<Rightarrow> (string \<rightharpoonup> string)
     \<Rightarrow> (User \<Rightarrow> world \<Rightarrow> response \<times> world) \<Rightarrow> world \<Rightarrow> route_response \<times> world" where
  "post_route api m request_headers handler w0 =
     (case authMiddleware api m request_headers w0 of
        (Inl e, w1) \<Rightarrow> (Unhandled e, w1)
      | (Inr u, w1) \<Rightarrow> (case handler u w1 of (r, w2) \<Rightarrow> (Answer r, w2)))"


section \<open>Observing a run\<close>

text \<open>The statements handed to pools between two states of the world, oldest first.\<close>

definition issued :: "world \<Rightarrow> world \<Rightarrow> (Pool \<times> statement) list" where
  "issued w0 w1 = drop (length (sent w0)) (sent w1)"

text \<open>
  The header record that \<open>authMiddleware\<close> builds from a request and passes on to the
  session check, written as one function.
\<close>

definition forwarded_headers :: "(string \<rightharpoonup> string) \<Rightarrow> (string \<rightharpoonup> string)" where
  "forwarded_headers request_headers =
     (\<lambda>k. if k = ''cookie'' \<and> truthy_string (request_headers ''cookie'')
            then request_headers ''cookie''
          else if k = ''authorization'' \<and> truthy_string (request_headers ''authorization'')
            then request_headers ''authorization''
          else None)"

text \<open>Between \<open>w0\<close> and \<open>w1\<close> statements were added to the trace only, all of them on \<open>p\<close>.\<close>

definition only_on :: "Pool \<Rightarrow> world \<Rightarrow> world \<Rightarrow> bool" where
  "only_on p w0 w1 = (\<exists>tr. sent w1 = sent w0 @ tr \<and> (\<forall>x \<in> set tr. fst x = p))"


section \<open>Concrete inputs\<close>

text \<open>
  A process started with an empty environment (every \<^verbatim>\<open>Number(undefined)\<close> is \<^verbatim>\<open>NaN\<close>),
  allocating from identity 0, and an empty world.
\<close>

definition Number_undefined :: "string option \<Rightarrow> int option" where
  "Number_undefined x = None"

definition module0 :: database_module where
  "module0 = fst (init_database_module Number_undefined Map.empty 0)"

definition world0 :: world where
  "world0 = \<lparr>console = [], sent = [], end_calls = []\<rparr>"

text \<open>
  An environment that points both pools at the same host and port. \<open>Number_5000\<close> agrees
  with the built-in conversion on the two arguments it receives here: the string \<^verbatim>\<open>"5000"\<close>
  and \<^verbatim>\<open>undefined\<close>.
\<close>

definition Number_5000 :: "string option \<Rightarrow> int option" where
  "Number_5000 x = (if x = Some ''5000'' then Some 5000 else None)"

definition env_same_endpoint :: env where
  "env_same_endpoint = [''DB_REPLICA_PORT'' \<mapsto> ''5000'']"

definition env_ssl_enabled :: env where
  "env_ssl_enabled = [''DB_SSL_ENABLED'' \<mapsto> ''true'']"

text \<open>A backend on which everything succeeds; post \<open>p1\<close> exists and belongs to user \<open>u1\<close>.\<close>

definition post1 :: post where
  "post1 = \<lparr>post_id = ''p1'', title = ''t'', content = ''c'', published = False,
            authorId = ''u1'', createdAt = 1, updatedAt = 2\<rparr>"

definition backend_up :: backend where
  "backend_up =
     \<lparr>raw_query = (\<lambda>p q. Inr ()),
      select_authorId = (\<lambda>p i. Inr (if i = ''p1'' then [''u1''] else [])),
      update_returning = (\<lambda>p i v. Inr [post1]),
      delete_returning = (\<lambda>p i. Inr [i]),
      end_pool = (\<lambda>p. Inr ())\<rparr>"

text \<open>A backend whose primary server refuses connections, and one where no pool closes.\<close>

definition backend_primary_down :: backend where
  "backend_primary_down =
     backend_up\<lparr>raw_query :=
       (\<lambda>p q. if pool_id p = 0 then Inl (Error ''ECONNREFUSED'') else Inr ())\<rparr>"

definition backend_close_fails :: backend where
  "backend_close_fails =
     backend_up\<lparr>end_pool :=
       (\<lambda>p. if pool_id p = 0 then Inl (Error ''primary stuck'')
             else Inl (Error ''replica stuck''))\<rparr>"

text \<open>The library finds the session of user \<open>u1\<close> after one lookup, or rejects.\<close>

definition api_session_u1 :: auth_api where
  "api_session_u1 =
     \<lparr>getSession = (\<lambda>h. Inr (Some \<lparr>session_user = Some \<lparr>user_id = ''u1''\<rparr>\<rparr>)),
      adapter_statements = (\<lambda>h. [''select session''])\<rparr>"


definition patch_title :: patch_body where
  "patch_title = \<lparr>body_title = Some ''new'', body_content = None, body_published = None\<rparr>"


section \<open>Pool selection and identity\<close>

lemma init_database_module_fields:
  "fst (init_database_module Number process_env h0) =
     \<lparr>primaryPool = fst (createPool process_env (primaryConfig Number process_env) h0),
      replicaPool = fst (createPool process_env (replicaConfig Number process_env) (Suc h0)),
      dbPrimary = \<lparr>db_id = Suc (Suc h0),
                   db_client = fst (createPool process_env (primaryConfig Number process_env) h0)\<rparr>,
      dbReplica = \<lparr>db_id = Suc (Suc (Suc h0)),
                   db_client = fst (createPool process_env (replicaConfig Number process_env) (Suc h0))\<rparr>\<rparr>"
  by (simp add: init_database_module_def createPool_def new_Pool_def drizzle_def Let_def)

lemma createPool_id: "pool_id (fst (createPool process_env config h)) = h"
  by (simp add: createPool_def new_Pool_def Let_def)

text \<open>
  C1. For each value of the flag, \<open>getDatabase\<close> returns the primary instance on \<open>True\<close> and
  the replica instance on \<open>False\<close>. It has no failure branch and no effect, and any number
  of calls with the same flag on the same module give the same instance every time; after
  module initialisation that instance sends to the primary pool, respectively the replica
  pool.
\<close>

theorem getDatabase_selects:
  "getDatabase m True = dbPrimary m
   \<and> getDatabase m False = dbReplica m
   \<and> map (\<lambda>_. getDatabase m isWrite) [0..<k]
       = replicate k (if isWrite then dbPrimary m else dbReplica m)
   \<and> db_client (getDatabase (fst (init_database_module Number process_env h0)) True)
       = primaryPool (fst (init_database_module Number process_env h0))
   \<and> db_client (getDatabase (fst (init_database_module Number process_env h0)) False)
       = replicaPool (fst (init_database_module Number process_env h0))"
proof -
  have calls: "map (\<lambda>_. getDatabase m isWrite) [0..<k] = replicate k (getDatabase m isWrite)"
    by (simp add: map_replicate_const)
  show ?thesis
    unfolding calls
    by (simp add: getDatabase_def init_database_module_fields)
qed

lemma module0_fields:
  "primaryPool module0 = fst (createPool Map.empty (primaryConfig Number_undefined Map.empty) 0)"
  "replicaPool module0 = fst (createPool Map.empty (replicaConfig Number_undefined Map.empty) (Suc 0))"
  "dbPrimary module0 = \<lparr>db_id = 2, db_client = primaryPool module0\<rparr>"
  "dbReplica module0 = \<lparr>db_id = 3, db_client = replicaPool module0\<rparr>"
  by (simp_all add: module0_def init_database_module_fields numeral_2_eq_2 numeral_3_eq_3)

lemma module0_ids: "pool_id (primaryPool module0) = 0" "pool_id (replicaPool module0) = 1"
  by (simp_all add: module0_fields createPool_id)

text \<open>
  C6. The two pools are distinct objects, and so are the two database instances handed out
  by \<open>getDatabase\<close>: the module creates each with a constructor call of its own and never
  rebinds them. This holds for every environment, hence also when both configurations name
  the same host and port; even two pools built from one and the same configuration record
  are different objects.
\<close>

theorem pools_distinct:
  "primaryPool (fst (init_database_module Number process_env h0))
     \<noteq> replicaPool (fst (init_database_module Number process_env h0))
   \<and> getDatabase (fst (init_database_module Number process_env h0)) True
     \<noteq> getDatabase (fst (init_database_module Number process_env h0)) False
   \<and> db_client (getDatabase (fst (init_database_module Number process_env h0)) True)
     \<noteq> db_client (getDatabase (fst (init_database_module Number process_env h0)) False)
   \<and> fst (createPool process_env config h)
     \<noteq> fst (createPool process_env config (snd (createPool process_env config h)))"
proof -
  let ?m = "fst (init_database_module Number process_env h0)"
  have ids: "pool_id (primaryPool ?m) = h0" "pool_id (replicaPool ?m) = Suc h0"
    by (simp_all add: init_database_module_fields createPool_id)
  then have pools: "primaryPool ?m \<noteq> replicaPool ?m"
    by auto
  have clients: "db_client (dbPrimary ?m) = primaryPool ?m" "db_client (dbReplica ?m) = replicaPool ?m"
    by (simp_all add: init_database_module_fields)
  have dbs: "dbPrimary ?m \<noteq> dbReplica ?m"
    using pools clients by auto
  have again: "pool_id (fst (createPool process_env config h))
      \<noteq> pool_id (fst (createPool process_env config (snd (createPool process_env config h))))"
    by (simp add: createPool_def new_Pool_def Let_def)
  then have twice: "fst (createPool process_env config h)
      \<noteq> fst (createPool process_env config (snd (createPool process_env config h)))"
    by auto
  show ?thesis
    using pools dbs clients twice by (simp add: getDatabase_def)
qed

text \<open>
  An instance: with \<open>env_same_endpoint\<close> the two configuration records are equal, field by
  field, and the pools selected for writing and for reading still differ.
\<close>

theorem pools_distinct_same_endpoint:
  "primaryConfig Number_5000 env_same_endpoint = replicaConfig Number_5000 env_same_endpoint
   \<and> db_client (getDatabase (fst (init_database_module Number_5000 env_same_endpoint 0)) True)
     \<noteq> db_client (getDatabase (fst (init_database_module Number_5000 env_same_endpoint 0)) False)"
proof -
  have same: "primaryConfig Number_5000 env_same_endpoint
      = replicaConfig Number_5000 env_same_endpoint"
    by (simp add: primaryConfig_def replicaConfig_def Number_5000_def env_same_endpoint_def
        or_string_def or_number_def)
  from pools_distinct [of Number_5000 env_same_endpoint 0] same show ?thesis
    by blast
qed

section \<open>Pool construction\<close>

text \<open>
  C7, as stated, fails: the TLS setting of a pool is not taken from the configuration
  record given to \<open>createPool\<close> (which has no TLS field). The same record yields a pool
  with TLS on in one environment and a pool with TLS off in another.
\<close>

theorem createPool_ssl_depends_on_env:
  "pc_ssl (pool_options (fst (createPool env_ssl_enabled (primaryConfig Number_undefined Map.empty) 0)))
     \<noteq> pc_ssl (pool_options (fst (createPool Map.empty (primaryConfig Number_undefined Map.empty) 0)))"
  by (simp add: createPool_def new_Pool_def Let_def env_ssl_enabled_def)

text \<open>
  C7, amended. \<open>createPool\<close> takes the TLS setting from the process-wide environment
  variable \<^verbatim>\<open>DB_SSL_ENABLED\<close>: when it is exactly \<^verbatim>\<open>true\<close> the pool uses TLS without
  certificate validation (\<^verbatim>\<open>rejectUnauthorized: false\<close>), otherwise TLS is off. Both pools
  of the module therefore always have the same TLS setting.
\<close>

theorem createPool_ssl_from_env:
  "pc_ssl (pool_options (fst (createPool process_env config h)))
     = (if process_env ''DB_SSL_ENABLED'' = Some ''true'' then SslOptions False else SslFalse)
   \<and> pc_ssl (pool_options (primaryPool (fst (init_database_module Number process_env h0))))
     = pc_ssl (pool_options (replicaPool (fst (init_database_module Number process_env h0))))"
  by (simp add: init_database_module_fields) (simp add: createPool_def new_Pool_def Let_def)

text \<open>
  C10. \<open>createPool\<close> fills an absent \<^verbatim>\<open>max\<close>, \<^verbatim>\<open>idleTimeoutMillis\<close> and
  \<^verbatim>\<open>connectionTimeoutMillis\<close> with 20, 30000 and 5000, and passes a supplied value on
  unchanged (also a supplied 0).
\<close>

theorem createPool_defaults:
  "pc_max (pool_options (fst (createPool process_env config h)))
     = (case max_conn config of None \<Rightarrow> 20 | Some v \<Rightarrow> v)
   \<and> pc_idleTimeoutMillis (pool_options (fst (createPool process_env config h)))
     = (case idleTimeoutMillis config of None \<Rightarrow> 30000 | Some v \<Rightarrow> v)
   \<and> pc_connectionTimeoutMillis (pool_options (fst (createPool process_env config h)))
     = (case connectionTimeoutMillis config of None \<Rightarrow> 5000 | Some v \<Rightarrow> v)"
  by (simp add: createPool_def new_Pool_def Let_def nullish_def)

section \<open>Health check\<close>

lemma checkDatabaseHealth_report:
  "fst (checkDatabaseHealth be m w)
     = Inr \<lparr>primary = \<not> isl (raw_query be (primaryPool m) ''SELECT 1''),
            replica = \<not> isl (raw_query be (replicaPool m) ''SELECT 1'')\<rparr>"
  by (simp add: checkDatabaseHealth_def Let_def split: sum.splits)

text \<open>
  C3. For every backend, \<open>checkDatabaseHealth\<close> returns a report and does not throw. Each
  flag is true exactly when the probe of its own pool succeeded, and both probes are sent,
  the primary's first, whatever the outcome of either.
\<close>

theorem checkDatabaseHealth_never_throws:
  "fst (checkDatabaseHealth be m w)
     = Inr \<lparr>primary = \<not> isl (raw_query be (primaryPool m) ''SELECT 1''),
            replica = \<not> isl (raw_query be (replicaPool m) ''SELECT 1'')\<rparr>
   \<and> sent (snd (checkDatabaseHealth be m w))
     = sent w @ [(primaryPool m, RawSql ''SELECT 1''), (replicaPool m, RawSql ''SELECT 1'')]"
  by (simp add: checkDatabaseHealth_def Let_def send_def console_error_def split: sum.splits)

text \<open>
  With the primary server down and the replica up the report is
  \<open>\<lparr>primary = False, replica = True\<rparr>\<close>.
\<close>

theorem checkDatabaseHealth_never_throws_witness:
  "fst (checkDatabaseHealth backend_primary_down module0 world0) = Inr \<lparr>primary = False, replica = True\<rparr>"
  by (simp add: checkDatabaseHealth_never_throws backend_primary_down_def backend_up_def module0_ids)

text \<open>
  C8. The health endpoint answers with success and status 200 exactly when both flags of
  the report are true, and with status 503 otherwise; in both cases the answer carries the
  state of each pool.
\<close>

theorem health_handler_status:
  "\<exists>dbHealth. fst (checkDatabaseHealth be m w) = Inr dbHealth
     \<and> (h_success (fst (health_handler be m timestamp w))
          \<and> h_status (fst (health_handler be m timestamp w)) = 200)
         = (primary dbHealth \<and> replica dbHealth)
     \<and> h_success (fst (health_handler be m timestamp w)) = (primary dbHealth \<and> replica dbHealth)
     \<and> h_status (fst (health_handler be m timestamp w))
         = (if primary dbHealth \<and> replica dbHealth then 200 else 503)
     \<and> h_database (fst (health_handler be m timestamp w))
         = Some (if primary dbHealth then ''connected'' else ''disconnected'',
                 if replica dbHealth then ''connected'' else ''disconnected'')"
proof -
  obtain r w' where run: "checkDatabaseHealth be m w = (Inr r, w')"
    using checkDatabaseHealth_report [of be m w] by (cases "checkDatabaseHealth be m w") auto
  show ?thesis
    by (rule exI [of _ r]) (simp add: run health_handler_def Let_def)
qed

section \<open>Shutdown\<close>

lemma Promise_all_isl: "isl (Promise_all ord a b) = (isl a \<or> isl b)"
  by (cases ord; cases a; cases b) simp_all

lemma Promise_all_source: "Promise_all ord a b = Inl e \<Longrightarrow> a = Inl e \<or> b = Inl e"
  by (cases ord; cases a; cases b) simp_all

lemma close_fst:
  "fst (closeDatabaseConnections be ord m w)
     = Promise_all ord (end_pool be (primaryPool m)) (end_pool be (replicaPool m))"
  by (simp add: closeDatabaseConnections_def Let_def split: sum.splits)

lemma logged_errors_append: "logged_errors (xs @ ys) = logged_errors xs @ logged_errors ys"
  by (induction xs rule: logged_errors.induct) simp_all

lemma close_console:
  "logged_errors (console (snd (closeDatabaseConnections be ord m w)))
     = logged_errors (console w)
       @ (case fst (closeDatabaseConnections be ord m w) of Inl e \<Rightarrow> [e] | Inr _ \<Rightarrow> [])"
  by (simp add: closeDatabaseConnections_def Let_def console_log_def console_error_def
      logged_errors_append split: sum.splits)

text \<open>
  C4, as stated, fails in its second half: when both pools fail to close, only one of the
  two errors is logged and thrown. Here the replica's error is neither thrown nor logged.
\<close>

theorem closeDatabaseConnections_drops_second_error:
  "end_pool backend_close_fails (primaryPool module0) = Inl (Error ''primary stuck'')
   \<and> end_pool backend_close_fails (replicaPool module0) = Inl (Error ''replica stuck'')
   \<and> reported_errors (closeDatabaseConnections backend_close_fails PrimaryFirst module0 world0)
       = [Error ''primary stuck'', Error ''primary stuck'']
   \<and> Error ''replica stuck''
       \<notin> set (reported_errors (closeDatabaseConnections backend_close_fails PrimaryFirst module0 world0))"
  by (simp add: reported_errors_def close_fst close_console backend_close_fails_def backend_up_def
      module0_ids world0_def)

text \<open>
  C4, amended. \<open>closeDatabaseConnections\<close> throws exactly when at least one pool fails to
  close. The error thrown is the error of a failing pool, and it is logged before it is
  thrown. When both pools fail, the error of the pool that settles first is the one thrown
  and logged; the other error is dropped.
\<close>

theorem closeDatabaseConnections_propagates_first:
  "isl (fst (closeDatabaseConnections be ord m w))
     = (isl (end_pool be (primaryPool m)) \<or> isl (end_pool be (replicaPool m)))
   \<and> (\<forall>e. fst (closeDatabaseConnections be ord m w) = Inl e \<longrightarrow>
         (end_pool be (primaryPool m) = Inl e \<or> end_pool be (replicaPool m) = Inl e)
         \<and> logged_errors (console (snd (closeDatabaseConnections be ord m w)))
             = logged_errors (console w) @ [e])
   \<and> (\<forall>e1 e2. end_pool be (primaryPool m) = Inl e1 \<and> end_pool be (replicaPool m) = Inl e2 \<longrightarrow>
         fst (closeDatabaseConnections be ord m w)
           = Inl (case ord of PrimaryFirst \<Rightarrow> e1 | ReplicaFirst \<Rightarrow> e2))"
proof (intro conjI allI impI)
  show "isl (fst (closeDatabaseConnections be ord m w))
     = (isl (end_pool be (primaryPool m)) \<or> isl (end_pool be (replicaPool m)))"
    by (simp add: close_fst Promise_all_isl)
next
  fix e assume "fst (closeDatabaseConnections be ord m w) = Inl e"
  then show "end_pool be (primaryPool m) = Inl e \<or> end_pool be (replicaPool m) = Inl e"
    by (simp add: close_fst Promise_all_source)
next
  fix e assume "fst (closeDatabaseConnections be ord m w) = Inl e"
  then show "logged_errors (console (snd (closeDatabaseConnections be ord m w)))
             = logged_errors (console w) @ [e]"
    by (simp add: close_console)
next
  fix e1 e2
  assume "end_pool be (primaryPool m) = Inl e1 \<and> end_pool be (replicaPool m) = Inl e2"
  then show "fst (closeDatabaseConnections be ord m w)
           = Inl (case ord of PrimaryFirst \<Rightarrow> e1 | ReplicaFirst \<Rightarrow> e2)"
    by (cases ord) (simp_all add: close_fst)
qed

theorem closeDatabaseConnections_propagates_first_witness:
  "end_pool backend_close_fails (primaryPool module0) = Inl (Error ''primary stuck'')
   \<and> end_pool backend_close_fails (replicaPool module0) = Inl (Error ''replica stuck'')
   \<and> fst (closeDatabaseConnections backend_close_fails ReplicaFirst module0 world0)
       = Inl (Error ''replica stuck'')
   \<and> logged_errors (console (snd (closeDatabaseConnections backend_close_fails ReplicaFirst module0 world0)))
       = [Error ''replica stuck'']"
proof -
  have p: "end_pool backend_close_fails (primaryPool module0) = Inl (Error ''primary stuck'')"
    and r: "end_pool backend_close_fails (replicaPool module0) = Inl (Error ''replica stuck'')"
    by (simp_all add: backend_close_fails_def backend_up_def module0_ids)
  from closeDatabaseConnections_propagates_first [of backend_close_fails ReplicaFirst module0 world0]
  show ?thesis
    using p r by (simp add: world0_def)
qed

section \<open>Session check and post routes\<close>

lemma only_on_refl: "only_on p w w"
  by (simp add: only_on_def)

lemma only_on_trans: "only_on p w0 w1 \<Longrightarrow> only_on p w1 w2 \<Longrightarrow> only_on p w0 w2"
  by (auto simp: only_on_def)

lemma only_on_send: "only_on p w (send p s w)"
  by (simp add: only_on_def send_def)

lemma only_on_console_error: "only_on p w0 w1 \<Longrightarrow> only_on p w0 (console_error t e w1)"
  by (simp add: only_on_def console_error_def)

lemma only_on_send_all: "only_on p w (send_all p ss w)"
proof (induction ss arbitrary: w)
  case Nil
  show ?case by (simp add: only_on_refl)
next
  case (Cons s ss)
  have "only_on p w (send p s w)" by (rule only_on_send)
  moreover have "only_on p (send p s w) (send_all p ss (send p s w))" by (rule Cons.IH)
  ultimately show ?case by (simp add: only_on_trans)
qed

lemma only_on_issued: "only_on p w0 w1 \<Longrightarrow> \<forall>x \<in> set (issued w0 w1). fst x = p"
  by (auto simp: only_on_def issued_def)


lemma verifySession_only_on:
  "only_on (db_client (dbPrimary m)) w (snd (verifySession api m headers w))"
  by (simp add: verifySession_def Let_def auth_database_def only_on_send_all
      only_on_console_error split: sum.splits option.splits)


lemma getUserFromSession_snd:
  "snd (getUserFromSession api m headers w) = snd (verifySession api m headers w)"
  by (simp add: getUserFromSession_def split: prod.splits sum.splits option.splits)

lemma authMiddleware_headers:
  "authMiddleware api m request_headers w =
     (case getUserFromSession api m (forwarded_headers request_headers) w of
        (Inl e, w1) \<Rightarrow> (Inl e, w1)
      | (Inr None, w1) \<Rightarrow> (Inl (UnauthorizedError ''Authentication required''), w1)
      | (Inr (Some u), w1) \<Rightarrow> (Inr u, w1))"
proof -
  have "(if truthy_string (request_headers ''cookie'')
         then (if truthy_string (request_headers ''authorization'')
               then Map.empty(''authorization'' := request_headers ''authorization'') else Map.empty)
              (''cookie'' := request_headers ''cookie'')
         else (if truthy_string (request_headers ''authorization'')
               then Map.empty(''authorization'' := request_headers ''authorization'') else Map.empty))
        = forwarded_headers request_headers"
    by (rule ext) (simp add: forwarded_headers_def)
  then show ?thesis
    by (simp add: authMiddleware_def Let_def)
qed

lemma authMiddleware_snd:
  "snd (authMiddleware api m request_headers w)
     = snd (verifySession api m (forwarded_headers request_headers) w)"
  by (simp add: authMiddleware_headers getUserFromSession_snd [symmetric]
      split: prod.splits sum.splits option.splits)

lemma authMiddleware_only_on:
  "only_on (db_client (dbPrimary m)) w (snd (authMiddleware api m request_headers w))"
  by (simp add: authMiddleware_snd verifySession_only_on)

lemma patch_post_only_on:
  "only_on (db_client (dbPrimary m)) w (snd (patch_post be m now pid body usr w))"
  by (auto simp: patch_post_def patch_catch_def Let_def
      intro!: only_on_console_error only_on_send only_on_trans [OF only_on_send only_on_send]
      split: sum.splits list.splits)

lemma delete_post_only_on:
  "only_on (db_client (dbPrimary m)) w (snd (delete_post be m pid usr w))"
  by (auto simp: delete_post_def delete_catch_def Let_def
      intro!: only_on_console_error only_on_send only_on_trans [OF only_on_send only_on_send]
      split: sum.splits list.splits)

lemma post_route_snd:
  "snd (post_route api m request_headers handler w) =
     (case authMiddleware api m request_headers w of
        (Inl e, w1) \<Rightarrow> w1
      | (Inr u, w1) \<Rightarrow> snd (handler u w1))"
  by (simp add: post_route_def split: prod.splits sum.splits)

lemma post_route_only_on:
  assumes "\<And>u w1. only_on (db_client (dbPrimary m)) w1 (snd (handler u w1))"
  shows "only_on (db_client (dbPrimary m)) w (snd (post_route api m request_headers handler w))"
proof (cases "authMiddleware api m request_headers w")
  case (Pair r w1)
  then have a: "only_on (db_client (dbPrimary m)) w w1"
    using authMiddleware_only_on [of m w api request_headers] by simp
  show ?thesis
  proof (cases r)
    case (Inl e)
    with Pair a show ?thesis by (simp add: post_route_snd)
  next
    case (Inr u)
    with Pair have "snd (post_route api m request_headers handler w) = snd (handler u w1)"
      by (simp add: post_route_snd)
    with a assms [of w1 u] show ?thesis by (simp add: only_on_trans)
  qed
qed

text \<open>
  C2. In a request to \<^verbatim>\<open>PATCH /posts/:id\<close> or \<^verbatim>\<open>DELETE /posts/:id\<close>, every statement
  issued, from the session lookup of the authentication library through the read of the
  post's author to the final write, goes to one and the same pool: the pool of the instance
  that \<open>getDatabase\<close> selects for writing, which is never the replica's pool. The
  authentication library is configured with that same instance.
\<close>

theorem multi_statement_routes_use_primary:
  assumes "m = fst (init_database_module Number process_env h0)"
  shows "(\<forall>(p, s) \<in> set (issued w (snd (post_route api m request_headers
                                          (patch_post be m now params_id body) w))).
            p = db_client (getDatabase m True) \<and> p \<noteq> db_client (getDatabase m False))
       \<and> (\<forall>(p, s) \<in> set (issued w (snd (post_route api m request_headers
                                          (delete_post be m params_id) w))).
            p = db_client (getDatabase m True) \<and> p \<noteq> db_client (getDatabase m False))
       \<and> auth_database m = getDatabase m True"
proof -
  have ids: "pool_id (db_client (dbPrimary m)) = h0" "pool_id (db_client (dbReplica m)) = Suc h0"
    by (simp_all add: assms init_database_module_fields createPool_id)
  then have neq: "db_client (dbPrimary m) \<noteq> db_client (dbReplica m)"
    by auto
  have patch: "\<forall>x \<in> set (issued w (snd (post_route api m request_headers
                                          (patch_post be m now params_id body) w))).
                 fst x = db_client (dbPrimary m)"
    by (intro only_on_issued post_route_only_on patch_post_only_on)
  have del: "\<forall>x \<in> set (issued w (snd (post_route api m request_headers
                                          (delete_post be m params_id) w))).
                 fst x = db_client (dbPrimary m)"
    by (intro only_on_issued post_route_only_on delete_post_only_on)
  show ?thesis
    using patch del neq by (auto simp: getDatabase_def auth_database_def)
qed

theorem multi_statement_routes_use_primary_witness:
  "module0 = fst (init_database_module Number_undefined Map.empty 0)
   \<and> issued world0 (snd (post_route api_session_u1 module0 Map.empty
                           (patch_post backend_up module0 7 ''p1'' patch_title) world0))
       = [(primaryPool module0, AdapterStatement ''select session''),
          (primaryPool module0, SelectAuthorId ''p1''),
          (primaryPool module0,
           UpdatePost ''p1'' \<lparr>set_title = Some ''new'', set_content = None,
                              set_published = None, set_updatedAt = 7\<rparr>)]
   \<and> primaryPool module0 = db_client (getDatabase module0 True)
   \<and> primaryPool module0 \<noteq> db_client (getDatabase module0 False)"
proof -
  let ?run = "issued world0 (snd (post_route api_session_u1 module0 Map.empty
                           (patch_post backend_up module0 7 ''p1'' patch_title) world0))"
  have tr: "?run
       = [(primaryPool module0, AdapterStatement ''select session''),
          (primaryPool module0, SelectAuthorId ''p1''),
          (primaryPool module0,
           UpdatePost ''p1'' \<lparr>set_title = Some ''new'', set_content = None,
                              set_published = None, set_updatedAt = 7\<rparr>)]"
    by (simp add: post_route_def authMiddleware_def getUserFromSession_def verifySession_def
        api_session_u1_def patch_post_def backend_up_def patch_title_def truthy_string_def
        auth_database_def module0_fields send_def world0_def issued_def Let_def)
  have pinned: "\<forall>(p, s) \<in> set ?run.
         p = db_client (getDatabase module0 True) \<and> p \<noteq> db_client (getDatabase module0 False)"
    by (rule conjunct1 [OF multi_statement_routes_use_primary [OF module0_def]])
  have "(primaryPool module0, SelectAuthorId ''p1'') \<in> set ?run"
    by (simp only: tr list.set insert_iff simp_thms)
  with pinned have sel: "primaryPool module0 = db_client (getDatabase module0 True)
      \<and> primaryPool module0 \<noteq> db_client (getDatabase module0 False)"
    by blast
  show ?thesis
    by (intro conjI) (rule module0_def tr conjunct1 [OF sel] conjunct2 [OF sel])+
qed



section \<open>Life cycle\<close>

lemma end_calls_send_all: "end_calls (send_all p ss w) = end_calls w"
  by (induction ss arbitrary: w) (simp_all add: send_def)

lemma end_calls_authMiddleware:
  "end_calls (snd (authMiddleware api m request_headers w)) = end_calls w"
  by (simp add: authMiddleware_snd verifySession_def Let_def end_calls_send_all console_error_def
      split: sum.splits option.splits)

lemma end_calls_patch_post: "end_calls (snd (patch_post be m now pid body usr w)) = end_calls w"
  by (simp add: patch_post_def patch_catch_def Let_def send_def console_error_def
      split: sum.splits list.splits)

lemma end_calls_delete_post: "end_calls (snd (delete_post be m pid usr w)) = end_calls w"
  by (simp add: delete_post_def delete_catch_def Let_def send_def console_error_def
      split: sum.splits list.splits)

lemma end_calls_post_route:
  assumes "\<And>u w1. end_calls (snd (handler u w1)) = end_calls w1"
  shows "end_calls (snd (post_route api m request_headers handler w)) = end_calls w"
proof (cases "authMiddleware api m request_headers w")
  case (Pair r w1)
  then have "end_calls w1 = end_calls w"
    using end_calls_authMiddleware [of api m request_headers w] by simp
  with Pair assms show ?thesis
    by (cases r) (simp_all add: post_route_snd)
qed

text \<open>
  C5, as stated, fails: after a shutdown that completed without error, on which
  \<^verbatim>\<open>end()\<close> was called on both pools, \<open>getDatabase\<close> still returns the primary instance
  with its ended pool. The call is not rejected.
\<close>

theorem getDatabase_after_shutdown_not_rejected:
  "fst (closeDatabaseConnections backend_up PrimaryFirst module0 world0) = Inr ()
   \<and> end_calls (snd (closeDatabaseConnections backend_up PrimaryFirst module0 world0))
       = [primaryPool module0, replicaPool module0]
   \<and> getDatabase module0 True = dbPrimary module0
   \<and> db_client (getDatabase module0 True) = primaryPool module0"
  by (simp add: closeDatabaseConnections_def Let_def backend_up_def console_log_def world0_def
      getDatabase_def module0_fields)

text \<open>
  C5, amended. The module keeps no life-cycle state of its own. \<open>closeDatabaseConnections\<close>
  calls \<^verbatim>\<open>end()\<close> on both pools, whatever the outcome; neither the health check nor a
  request handler undoes this, and nothing replaces a pool. \<open>getDatabase\<close> makes no check:
  after shutdown it returns the same instance as before, whose pool has been ended.
\<close>

theorem shutdown_ends_pools_selection_unchanged:
  "end_calls (snd (closeDatabaseConnections be ord m w)) = end_calls w @ [primaryPool m, replicaPool m]
   \<and> end_calls (snd (checkDatabaseHealth be m w)) = end_calls w
   \<and> end_calls (snd (post_route api m request_headers (patch_post be m now params_id body) w))
       = end_calls w
   \<and> end_calls (snd (post_route api m request_headers (delete_post be m params_id) w))
       = end_calls w
   \<and> db_client (getDatabase (fst (init_database_module Number process_env h0)) isWrite)
       \<in> set (end_calls (snd (closeDatabaseConnections be ord
                                  (fst (init_database_module Number process_env h0)) w)))"
proof -
  have close: "\<And>m. end_calls (snd (closeDatabaseConnections be ord m w))
      = end_calls w @ [primaryPool m, replicaPool m]"
    by (simp add: closeDatabaseConnections_def Let_def console_log_def console_error_def
        split: sum.splits)
  have health: "end_calls (snd (checkDatabaseHealth be m w)) = end_calls w"
    by (simp add: checkDatabaseHealth_def Let_def send_def console_error_def split: sum.splits)
  have patch: "end_calls (snd (post_route api m request_headers
                                 (patch_post be m now params_id body) w)) = end_calls w"
    by (rule end_calls_post_route) (rule end_calls_patch_post)
  have del: "end_calls (snd (post_route api m request_headers
                                 (delete_post be m params_id) w)) = end_calls w"
    by (rule end_calls_post_route) (rule end_calls_delete_post)
  have sel: "db_client (getDatabase (fst (init_database_module Number process_env h0)) isWrite)
       \<in> set (end_calls (snd (closeDatabaseConnections be ord
                                  (fst (init_database_module Number process_env h0)) w)))"
    by (simp add: close getDatabase_def init_database_module_fields)
  from close [of m] health patch del sel show ?thesis
    by (intro conjI)
qed

end
